theory Spec2Isabelle
  imports Complex_Main
begin

section \<open>The draggable segment and the measurement controller of photo\_measure.py\<close>

text \<open>
  The program is one Python file: the widget class \<open>DraggableLine\<close> and a script that
  wires two such widgets and two text boxes together. Coordinates are Python and numpy
  floats; they are modelled here as real numbers, so every statement below is about exact
  arithmetic and says nothing about rounding. The toolkit (matplotlib) is not part of the
  program: what it hands to the callbacks (the mouse event, the state of the canvas's
  widget lock, the data-to-pixel transform) appears as arguments.
\<close>

subsection \<open>Values handed in by the toolkit\<close>

datatype error = ValueError | ZeroDivisionError

text \<open>
  A mouse event carries the axes it happened in (\<open>None\<close> outside every axes), its pixel
  position \<open>event.x, event.y\<close> and its position in data coordinates
  \<open>event.xdata, event.ydata\<close>. Matplotlib sets the data position only when \<open>inaxes\<close> is
  set; the callbacks read it only behind a test of \<open>inaxes\<close>.
\<close>

record MouseEvent =
  inaxes :: "nat option"
  event_x :: real
  event_y :: real
  xdata :: real
  ydata :: real

text \<open>
  What \<open>_on_press\<close> reads from its canvas and axes: \<open>self.canvas.widgetlock.available(self)\<close>
  and \<open>self.ax.transData.transform\<close>.
\<close>

record Canvas =
  widgetlock_available :: bool
  transData :: "real \<times> real \<Rightarrow> real \<times> real"

text \<open>
  The two built-ins of Python the controller calls. \<open>float(s)\<close> raises ValueError on a
  text that is no number: \<open>py_float\<close> is \<open>None\<close> there. Dividing by a zero length is
  where Python floats and numpy float64 part (ZeroDivisionError against inf or nan), and
  which of the two reaches the division is decided by the toolkit's arrays: the outcome
  of formatting such a quotient is the parameter \<open>div_zero\<close>.
\<close>

record Python =
  py_float :: "string \<Rightarrow> real option"
  div_zero :: "real \<Rightarrow> error + string"

subsection \<open>Numeric helpers\<close>

text \<open>\<open>np.hypot\<close>.\<close>

definition hypot :: "real \<Rightarrow> real \<Rightarrow> real" where
  "hypot a b = sqrt (a\<^sup>2 + b\<^sup>2)"

text \<open>
  \<open>np.argmin\<close>: the index of the first occurrence of the minimum. (On an empty array
  numpy raises; the widget always passes its three handles.)
\<close>

fun argmin :: "real list \<Rightarrow> nat" where
  "argmin [] = 0"
| "argmin [v] = 0"
| "argmin (v # w # ws) =
     (let j = argmin (w # ws) in if v \<le> (w # ws) ! j then 0 else Suc j)"

text \<open>
  The format \<open>f"{length:.2f}"\<close>: the value rounded to two decimals, a tie going to the
  even neighbour, printed with its sign, its integer digits, a point and two digits.
\<close>

definition round_half_even :: "real \<Rightarrow> int" where
  "round_half_even v =
     (let f = \<lfloor>v\<rfloor>; r = v - of_int f
      in if r < 1 / 2 then f else if 1 / 2 < r then f + 1
         else if even f then f else f + 1)"

definition digit_char :: "nat \<Rightarrow> char" where
  "digit_char d = ''0123456789'' ! d"

fun digits :: "nat \<Rightarrow> string" where
  "digits n = (if n < 10 then [digit_char n] else digits (n div 10) @ [digit_char (n mod 10)])"

declare digits.simps [simp del]

definition format_2f :: "real \<Rightarrow> string" where
  "format_2f v =
     (let n = nat (round_half_even (\<bar>v\<bar> * 100))
      in (if v < 0 then ''-'' else '''') @ digits (n div 100) @ ''.''
         @ [digit_char (n div 10 mod 10), digit_char (n mod 10)])"

subsection \<open>DraggableLine\<close>

text \<open>
  The widget's state: its axes, the data of the \<open>Line2D\<close> holding the three handles
  (endpoint, midpoint, endpoint), the index of the grabbed handle (\<open>None\<close>: not moving),
  the grab range and the \<open>drawon\<close> flag of the widget base class.
\<close>

record DraggableLine =
  ax :: nat
  handles_x :: "real list"
  handles_y :: "real list"
  handle_idx :: "nat option"
  grab_range :: real
  drawon :: bool

text \<open>What a callback does besides changing the widget.\<close>

datatype effect =
    LineChanged "real \<times> real" "real \<times> real"
  | DrawIdle

definition DraggableLine_init :: "nat \<Rightarrow> real \<times> real \<Rightarrow> real \<times> real \<Rightarrow> real \<Rightarrow> DraggableLine" where
  "DraggableLine_init a x y grab =
     (let center_x = (fst x + snd x) / 2;
          center_y = (fst y + snd y) / 2
      in \<lparr>ax = a,
          handles_x = [fst x, center_x, snd x],
          handles_y = [fst y, center_y, snd y],
          handle_idx = None,
          grab_range = grab,
          drawon = True\<rparr>)"

text \<open>The pixel distances of the handles to the pointer, \<open>dist\<close> in \<open>_on_press\<close>.\<close>

definition handle_dists :: "Canvas \<Rightarrow> DraggableLine \<Rightarrow> MouseEvent \<Rightarrow> real list" where
  "handle_dists c l ev =
     (let pts = map (transData c) (zip (handles_x l) (handles_y l))
      in map (\<lambda>(px, py). hypot (px - event_x ev) (py - event_y ev)) pts)"

definition on_press :: "Canvas \<Rightarrow> DraggableLine \<Rightarrow> MouseEvent \<Rightarrow> DraggableLine" where
  "on_press c l ev =
     (if Some (ax l) \<noteq> inaxes ev then l
      else if \<not> widgetlock_available c then l
      else let dist = handle_dists c l ev;
               idx = argmin dist
           in if dist ! idx < grab_range l
              then l\<lparr>handle_idx := Some idx\<rparr>
              else l\<lparr>handle_idx := None\<rparr>)"

definition on_move :: "DraggableLine \<Rightarrow> MouseEvent \<Rightarrow> DraggableLine \<times> effect list" where
  "on_move l ev =
     (if Some (ax l) \<noteq> inaxes ev then (l, [])
      else case handle_idx l of
        None \<Rightarrow> (l, [])
      | Some i \<Rightarrow>
          let x = handles_x l; y = handles_y l;
              (x', y') =
                (if i = 1
                 then (map (\<lambda>v. v + (xdata ev - x ! 1)) x,
                       map (\<lambda>v. v + (ydata ev - y ! 1)) y)
                 else let x1 = x[i := xdata ev];
                          y1 = y[i := ydata ev]
                      in (x1[1 := (x1 ! 0 + x1 ! 2) / 2],
                          y1[1 := (y1 ! 0 + y1 ! 2) / 2]))
          in (l\<lparr>handles_x := x', handles_y := y'\<rparr>,
              LineChanged (x' ! 0, x' ! 2) (y' ! 0, y' ! 2)
                # (if drawon l then [DrawIdle] else [])))"

definition on_release :: "DraggableLine \<Rightarrow> MouseEvent \<Rightarrow> DraggableLine" where
  "on_release l ev = l\<lparr>handle_idx := None\<rparr>"

definition get_length :: "DraggableLine \<Rightarrow> real" where
  "get_length l =
     (let x = handles_x l; y = handles_y l
      in sqrt ((x ! 2 - x ! 0)\<^sup>2 + (y ! 2 - y ! 0)\<^sup>2))"

definition get_endpoints :: "DraggableLine \<Rightarrow> real list \<times> real list" where
  "get_endpoints l =
     (let x = handles_x l; y = handles_y l
      in ([x ! 0, x ! 2], [y ! 0, y ! 2]))"

text \<open>
  A widget is well formed when its line holds three handles and the grabbed index, if
  any, is one of them. The constructor establishes this and every callback keeps it.
\<close>

definition wf_line :: "DraggableLine \<Rightarrow> bool" where
  "wf_line l =
     (length (handles_x l) = 3 \<and> length (handles_y l) = 3
      \<and> (case handle_idx l of None \<Rightarrow> True | Some i \<Rightarrow> i < 3))"

definition midpoint_is_mean :: "DraggableLine \<Rightarrow> bool" where
  "midpoint_is_mean l =
     (handles_x l ! 1 = (handles_x l ! 0 + handles_x l ! 2) / 2
      \<and> handles_y l ! 1 = (handles_y l ! 0 + handles_y l ! 2) / 2)"




subsection \<open>The measurement controller\<close>

text \<open>
  The script's state: the two widgets, the text of the reference-length box
  \<open>ref_text\<close> and the text of the readout \<open>measured_box\<close>.
\<close>

record App =
  ref_line :: DraggableLine
  test_line :: DraggableLine
  ref_text :: string
  measured_box :: string

text \<open>
  The state the script builds before it shows the window. The image axes are number 0;
  the reference-length box starts as \<open>f"{reference_length}"\<close> and the readout as
  \<open>"???"\<close>.
\<close>

definition initial_app :: App where
  "initial_app =
     \<lparr>ref_line =
        DraggableLine_init 0 (390.21691176470574, 388.0611631016043)
          (592.6617647058823, 927.7553475935829) 10,
      test_line = (DraggableLine_init 0 (5, 500) (5, 500) 10)\<lparr>drawon := False\<rparr>,
      ref_text = ''26'',
      measured_box = ''???''\<rparr>"

text \<open>\<open>f"{n / d:.2f}"\<close>.\<close>

definition format_quotient :: "Python \<Rightarrow> real \<Rightarrow> real \<Rightarrow> error + string" where
  "format_quotient P n d = (if d = 0 then div_zero P n else Inr (format_2f (n / d)))"

definition update_test_readout :: "Python \<Rightarrow> real option \<Rightarrow> App \<Rightarrow> error + App" where
  "update_test_readout P test_length app =
     (let tl = (case test_length of None \<Rightarrow> get_length (test_line app) | Some t \<Rightarrow> t)
      in case py_float P (ref_text app) of
           None \<Rightarrow> Inl ValueError
         | Some r \<Rightarrow>
             (case format_quotient P (r * tl) (get_length (ref_line app)) of
                Inl e \<Rightarrow> Inl e
              | Inr s \<Rightarrow> Inr (app\<lparr>measured_box := s\<rparr>)))"







subsection \<open>Notions the statements use\<close>

text \<open>The two endpoints of a segment and the Euclidean distance of the plane.\<close>

definition endpoint0 :: "DraggableLine \<Rightarrow> real \<times> real" where
  "endpoint0 l = (handles_x l ! 0, handles_y l ! 0)"

definition endpoint1 :: "DraggableLine \<Rightarrow> real \<times> real" where
  "endpoint1 l = (handles_x l ! 2, handles_y l ! 2)"

definition euclidean :: "real \<times> real \<Rightarrow> real \<times> real \<Rightarrow> real" where
  "euclidean p q = dist (Complex (fst p) (snd p)) (Complex (fst q) (snd q))"

text \<open>
  The distance on the screen between handle \<open>j\<close> and the pointer of an event: the
  handle's data position goes through the data-to-pixel transform.
\<close>

definition handle_pixel_distance :: "Canvas \<Rightarrow> DraggableLine \<Rightarrow> MouseEvent \<Rightarrow> nat \<Rightarrow> real" where
  "handle_pixel_distance c l ev j =
     euclidean (transData c (handles_x l ! j, handles_y l ! j)) (event_x ev, event_y ev)"


text \<open>
  Concrete values for the examples: a canvas whose pixels are the data coordinates, with
  the widget lock free or held by another widget; an event inside axes 0 whose pixel and
  data positions agree, and one outside every axes; a segment from (0,0) to (4,0); a
  Python that reads the text \<open>26\<close> and raises on a division by zero.
\<close>

definition free_canvas :: Canvas where
  "free_canvas = \<lparr>widgetlock_available = True, transData = id\<rparr>"

definition locked_canvas :: Canvas where
  "locked_canvas = \<lparr>widgetlock_available = False, transData = id\<rparr>"

definition event_at :: "real \<Rightarrow> real \<Rightarrow> MouseEvent" where
  "event_at px py = \<lparr>inaxes = Some 0, event_x = px, event_y = py, xdata = px, ydata = py\<rparr>"

definition event_outside :: "real \<Rightarrow> real \<Rightarrow> MouseEvent" where
  "event_outside px py = \<lparr>inaxes = None, event_x = px, event_y = py, xdata = 0, ydata = 0\<rparr>"

definition flat_line :: DraggableLine where
  "flat_line = DraggableLine_init 0 (0, 4) (0, 0) 10"



section \<open>Properties\<close>

subsection \<open>Well-formedness\<close>



lemma length3E:
  assumes "length xs = 3"
  obtains a b c where "xs = [a, b, c]"
  using assms by (auto simp: length_Suc_conv numeral_3_eq_3)

lemma argmin_less: "xs \<noteq> [] \<Longrightarrow> argmin xs < length xs"
  by (induction xs rule: argmin.induct) (auto simp: Let_def)



lemma length_handle_dists:
  "wf_line l \<Longrightarrow> length (handle_dists c l ev) = 3"
  by (simp add: handle_dists_def wf_line_def)

lemma argmin_handle_dists:
  assumes "wf_line l"
  shows "argmin (handle_dists c l ev) < 3"
proof -
  have len: "length (handle_dists c l ev) = 3"
    using assms by (rule length_handle_dists)
  then have "handle_dists c l ev \<noteq> []" by auto
  then have "argmin (handle_dists c l ev) < length (handle_dists c l ev)"
    by (rule argmin_less)
  with len show ?thesis by simp
qed





subsection \<open>The midpoint\<close>





subsection \<open>Lengths and drags\<close>


lemma hypot_euclidean: "hypot (a - c) (b - d) = euclidean (a, b) (c, d)"
  by (simp add: hypot_def euclidean_def dist_norm cmod_def)



text \<open>
  C5. With an endpoint handle grabbed (index 0 or 2), a move inside the segment's axes
  puts that endpoint at the pointer's data position, leaves the other endpoint (index
  \<open>2 - i\<close>) where it was, makes the midpoint the mean of the two endpoints, changes
  nothing else of the widget, and emits one "line-changed" carrying the x coordinates
  and the y coordinates of the two endpoints (followed by the redraw request when
  \<open>drawon\<close> is set).
\<close>

theorem endpoint_drag_frame:
  assumes "wf_line l" and "handle_idx l = Some i" and "i = 0 \<or> i = 2"
    and "inaxes ev = Some (ax l)"
  shows "handles_x (fst (on_move l ev)) ! i = xdata ev
       \<and> handles_y (fst (on_move l ev)) ! i = ydata ev
       \<and> handles_x (fst (on_move l ev)) ! (2 - i) = handles_x l ! (2 - i)
       \<and> handles_y (fst (on_move l ev)) ! (2 - i) = handles_y l ! (2 - i)
       \<and> midpoint_is_mean (fst (on_move l ev))
       \<and> fst (on_move l ev) = l\<lparr>handles_x := handles_x (fst (on_move l ev)),
                                  handles_y := handles_y (fst (on_move l ev))\<rparr>
       \<and> snd (on_move l ev) =
           LineChanged (fst (endpoint0 (fst (on_move l ev))), fst (endpoint1 (fst (on_move l ev))))
                       (snd (endpoint0 (fst (on_move l ev))), snd (endpoint1 (fst (on_move l ev))))
             # (if drawon l then [DrawIdle] else [])"
proof -
  from assms(1) obtain a b c where x: "handles_x l = [a, b, c]"
    by (auto simp: wf_line_def elim: length3E)
  from assms(1) obtain d e f where y: "handles_y l = [d, e, f]"
    by (auto simp: wf_line_def elim: length3E)
  from assms(3) show ?thesis
  proof
    assume "i = 0"
    with assms(2,4) x y show ?thesis
      by (simp add: on_move_def endpoint0_def endpoint1_def midpoint_is_mean_def Let_def)
  next
    assume "i = 2"
    with assms(2,4) x y show ?thesis
      by (simp add: on_move_def endpoint0_def endpoint1_def midpoint_is_mean_def Let_def)
  qed
qed

theorem endpoint_drag_frame_witness:
  "wf_line (flat_line\<lparr>handle_idx := Some 2\<rparr>)
   \<and> on_move (flat_line\<lparr>handle_idx := Some 2\<rparr>) (event_at 10 6)
       = (flat_line\<lparr>handle_idx := Some 2, handles_x := [0, 5, 10], handles_y := [0, 3, 6]\<rparr>,
          [LineChanged (0, 10) (0, 6), DrawIdle])"
proof -
  have w: "wf_line (flat_line\<lparr>handle_idx := Some 2\<rparr>)"
    by (simp add: wf_line_def flat_line_def DraggableLine_init_def)
  have i: "handle_idx (flat_line\<lparr>handle_idx := Some 2\<rparr>) = Some 2"
    by simp
  have e: "(2::nat) = 0 \<or> (2::nat) = 2"
    by simp
  have a: "inaxes (event_at 10 6) = Some (ax (flat_line\<lparr>handle_idx := Some 2\<rparr>))"
    by (simp add: event_at_def flat_line_def DraggableLine_init_def)
  from endpoint_drag_frame [OF w i e a] w show ?thesis
    by (simp add: flat_line_def DraggableLine_init_def event_at_def on_move_def Let_def)
qed

subsection \<open>Presses, releases and events outside the axes\<close>

lemma euclidean_on_axis: "euclidean (a, 0) (b, 0) = \<bar>a - b\<bar>"
  by (simp add: euclidean_def dist_norm cmod_def)

lemma handle_dists_nth:
  assumes "wf_line l" and "j < 3"
  shows "handle_dists c l ev ! j = handle_pixel_distance c l ev j"
proof -
  from assms(1) have "j < length (zip (handles_x l) (handles_y l))"
    using assms(2) by (simp add: wf_line_def)
  then show ?thesis
    by (simp add: handle_dists_def handle_pixel_distance_def hypot_def euclidean_def
        dist_norm cmod_def split_beta)
qed

lemma flat_line_dists:
  "handle_dists free_canvas (flat_line\<lparr>handle_idx := h\<rparr>) (event_at p 0) = [\<bar>p\<bar>, \<bar>2 - p\<bar>, \<bar>4 - p\<bar>]"
  "handle_dists locked_canvas (flat_line\<lparr>handle_idx := h\<rparr>) (event_at p 0) = [\<bar>p\<bar>, \<bar>2 - p\<bar>, \<bar>4 - p\<bar>]"
  by (simp_all add: handle_dists_def flat_line_def DraggableLine_init_def event_at_def
      free_canvas_def locked_canvas_def hypot_def)

lemma flat_line_fields:
  "ax (flat_line\<lparr>handle_idx := h\<rparr>) = 0"
  "grab_range (flat_line\<lparr>handle_idx := h\<rparr>) = 10"
  "drawon (flat_line\<lparr>handle_idx := h\<rparr>) = True"
  "handles_x (flat_line\<lparr>handle_idx := h\<rparr>) = [0, 2, 4]"
  "handles_y (flat_line\<lparr>handle_idx := h\<rparr>) = [0, 0, 0]"
  "ax flat_line = 0" "grab_range flat_line = 10" "drawon flat_line = True"
  "handles_x flat_line = [0, 2, 4]" "handles_y flat_line = [0, 0, 0]"
  "handle_idx flat_line = None"
  by (simp_all add: flat_line_def DraggableLine_init_def)

lemma canvas_fields:
  "widgetlock_available free_canvas" "\<not> widgetlock_available locked_canvas"
  "transData free_canvas = id" "transData locked_canvas = id"
  by (simp_all add: free_canvas_def locked_canvas_def)

lemma event_at_fields:
  "inaxes (event_at p q) = Some 0" "event_x (event_at p q) = p" "event_y (event_at p q) = q"
  "xdata (event_at p q) = p" "ydata (event_at p q) = q"
  by (simp_all add: event_at_def)

lemma flat_line_record: "flat_line\<lparr>handle_idx := None\<rparr> = flat_line"
  by (simp add: flat_line_def DraggableLine_init_def)

lemma flat_press_0: "on_press free_canvas flat_line (event_at 0 0) = flat_line\<lparr>handle_idx := Some 0\<rparr>"
  using flat_line_dists(1) [of None 0]
  by (simp add: on_press_def flat_line_record flat_line_fields canvas_fields event_at_fields
      Let_def)

text \<open>
  C9, as the code has it. A press or a move whose event is not inside the segment's own
  axes is ignored entirely: the widget is returned as it was (no grab, no change of the
  grabbed handle, no change of an endpoint or of the midpoint) and nothing is emitted.
  A release is different: \<open>_on_release\<close> does not look at the event, so a release
  outside the axes leaves every handle where it was but clears the grabbed-handle state,
  as every release does.
\<close>

theorem outside_events:
  assumes "inaxes ev \<noteq> Some (ax l)"
  shows "on_press c l ev = l \<and> on_move l ev = (l, [])
       \<and> on_release l ev = l\<lparr>handle_idx := None\<rparr>"
  using assms by (auto simp: on_press_def on_move_def on_release_def)

theorem outside_events_witness:
  "inaxes (event_outside 100 100) \<noteq> Some (ax (flat_line\<lparr>handle_idx := Some 0\<rparr>))
   \<and> on_press free_canvas (flat_line\<lparr>handle_idx := Some 0\<rparr>) (event_outside 100 100)
       = flat_line\<lparr>handle_idx := Some 0\<rparr>
   \<and> on_move (flat_line\<lparr>handle_idx := Some 0\<rparr>) (event_outside 100 100)
       = (flat_line\<lparr>handle_idx := Some 0\<rparr>, [])
   \<and> on_release (flat_line\<lparr>handle_idx := Some 0\<rparr>) (event_outside 100 100) = flat_line"
proof -
  have h: "inaxes (event_outside 100 100) \<noteq> Some (ax (flat_line\<lparr>handle_idx := Some 0\<rparr>))"
    by (simp add: event_outside_def)
  from outside_events [OF h, of free_canvas] h show ?thesis
    by (simp add: flat_line_def DraggableLine_init_def)
qed

theorem release_outside_counterexample:
  "handle_idx (on_press free_canvas flat_line (event_at 0 0)) = Some 0
   \<and> inaxes (event_outside 100 100) \<noteq> Some (ax (on_press free_canvas flat_line (event_at 0 0)))
   \<and> handle_idx (on_release (on_press free_canvas flat_line (event_at 0 0)) (event_outside 100 100))
       = None"
  by (simp add: flat_press_0 on_release_def event_outside_def)



lemma argmin_mem: "xs \<noteq> [] \<Longrightarrow> xs ! argmin xs \<in> set xs"
  by (simp add: argmin_less)








text \<open>
  C10, as the code has it. For a press inside the segment's axes with the widget lock
  available: when the nearest handle's pixel distance is exactly the grab range, the
  press leaves no handle grabbed, whatever was grabbed before; and a handle that is
  grabbed after the press is at a distance strictly less than the grab range.
\<close>

theorem strict_grab_range:
  assumes "wf_line l" and "inaxes ev = Some (ax l)" and "widgetlock_available c"
  shows "(\<forall>k<3. handle_pixel_distance c l ev k = grab_range l
                 \<and> (\<forall>j<3. handle_pixel_distance c l ev k \<le> handle_pixel_distance c l ev j)
            \<longrightarrow> on_press c l ev = l\<lparr>handle_idx := None\<rparr>)
       \<and> (\<forall>i. handle_idx (on_press c l ev) = Some i
            \<longrightarrow> i < 3 \<and> handle_pixel_distance c l ev i < grab_range l)"
proof -
  let ?d = "handle_dists c l ev"
  have len: "length ?d = 3" using assms(1) by (rule length_handle_dists)
  have i3: "argmin ?d < 3" using assms(1) by (rule argmin_handle_dists)
  have n: "?d ! argmin ?d = handle_pixel_distance c l ev (argmin ?d)"
    using assms(1) i3 by (rule handle_dists_nth)
  have "on_press c l ev = l\<lparr>handle_idx := None\<rparr>"
    if k: "k < 3" and eq: "handle_pixel_distance c l ev k = grab_range l"
      and least: "\<forall>j<3. handle_pixel_distance c l ev k \<le> handle_pixel_distance c l ev j"
    for k
  proof -
    from least i3 eq have "grab_range l \<le> ?d ! argmin ?d" by (simp add: n)
    with assms(2,3) show ?thesis by (simp add: on_press_def Let_def)
  qed
  moreover have "\<forall>i. handle_idx (on_press c l ev) = Some i
      \<longrightarrow> i < 3 \<and> handle_pixel_distance c l ev i < grab_range l"
    using assms(2,3) i3 n by (auto simp: on_press_def Let_def split: if_splits)
  ultimately show ?thesis by blast
qed

theorem strict_grab_range_witness:
  "wf_line (flat_line\<lparr>handle_idx := Some 2\<rparr>)
   \<and> handle_pixel_distance free_canvas (flat_line\<lparr>handle_idx := Some 2\<rparr>) (event_at (- 10) 0) 0 = 10
   \<and> handle_pixel_distance free_canvas (flat_line\<lparr>handle_idx := Some 2\<rparr>) (event_at (- 10) 0) 1 = 12
   \<and> handle_pixel_distance free_canvas (flat_line\<lparr>handle_idx := Some 2\<rparr>) (event_at (- 10) 0) 2 = 14
   \<and> grab_range (flat_line\<lparr>handle_idx := Some 2\<rparr>) = 10
   \<and> on_press free_canvas (flat_line\<lparr>handle_idx := Some 2\<rparr>) (event_at (- 10) 0) = flat_line"
proof -
  let ?l = "flat_line\<lparr>handle_idx := Some 2\<rparr>"
  let ?d = "handle_pixel_distance free_canvas ?l (event_at (- 10) 0)"
  have w: "wf_line ?l"
    by (simp add: wf_line_def flat_line_fields)
  have a: "inaxes (event_at (- 10) 0) = Some (ax ?l)"
    by (simp add: event_at_fields flat_line_fields)
  have k: "widgetlock_available free_canvas"
    by (simp add: canvas_fields)
  have d: "?d 0 = 10" "?d 1 = 12" "?d 2 = 14"
    by (simp_all add: handle_pixel_distance_def flat_line_fields canvas_fields event_at_fields
        euclidean_on_axis)
  have g: "grab_range ?l = 10"
    by (simp add: flat_line_fields)
  have least: "\<forall>j<3. ?d 0 \<le> ?d j"
  proof (intro allI impI)
    fix j :: nat assume "j < 3"
    then have "j = 0 \<or> j = 1 \<or> j = 2" by auto
    with d show "?d 0 \<le> ?d j" by auto
  qed
  from strict_grab_range [OF w a k] d(1) g least
  have "on_press free_canvas ?l (event_at (- 10) 0) = ?l\<lparr>handle_idx := None\<rparr>"
    by (metis zero_less_numeral)
  then have "on_press free_canvas ?l (event_at (- 10) 0) = flat_line"
    by (simp add: flat_line_def DraggableLine_init_def)
  with w d g show ?thesis by blast
qed

theorem equal_distance_under_lock_counterexample:
  "on_press free_canvas flat_line (event_at 4 0) = flat_line\<lparr>handle_idx := Some 2\<rparr>
   \<and> handle_pixel_distance locked_canvas (flat_line\<lparr>handle_idx := Some 2\<rparr>) (event_at (- 10) 0) 0 = 10
   \<and> handle_pixel_distance locked_canvas (flat_line\<lparr>handle_idx := Some 2\<rparr>) (event_at (- 10) 0) 1 = 12
   \<and> handle_pixel_distance locked_canvas (flat_line\<lparr>handle_idx := Some 2\<rparr>) (event_at (- 10) 0) 2 = 14
   \<and> grab_range (flat_line\<lparr>handle_idx := Some 2\<rparr>) = 10
   \<and> inaxes (event_at (- 10) 0) = Some (ax (flat_line\<lparr>handle_idx := Some 2\<rparr>))
   \<and> handle_idx (on_press locked_canvas (flat_line\<lparr>handle_idx := Some 2\<rparr>) (event_at (- 10) 0))
       = Some 2"
proof -
  have p: "on_press free_canvas flat_line (event_at 4 0) = flat_line\<lparr>handle_idx := Some 2\<rparr>"
    using flat_line_dists(1) [of None 4]
    by (simp add: on_press_def flat_line_record flat_line_fields canvas_fields event_at_fields
        Let_def)
  show ?thesis
    unfolding p
    by (simp add: handle_pixel_distance_def flat_line_fields on_press_def canvas_fields
        event_at_fields euclidean_on_axis)
qed

subsection \<open>The controller\<close>







text \<open>
  When a recompute raises: on a text that \<open>float\<close> rejects, and on a reference
  segment of length zero exactly when the division by zero raises.
\<close>

lemma recompute_raises_iff:
  "(\<exists>e. update_test_readout P None app = Inl e) \<longleftrightarrow>
     (case py_float P (ref_text app) of
        None \<Rightarrow> True
      | Some r \<Rightarrow> get_length (ref_line app) = 0
                  \<and> (\<exists>e. div_zero P (r * get_length (test_line app)) = Inl e))"
  by (auto simp: update_test_readout_def format_quotient_def split: option.splits sum.splits)














end
